theory Spec2Isabelle
  imports Complex_Main "HOL-Library.AList"
begin

section \<open>Documents of the store\<close>

text \<open>
  The backend keeps four Firestore collections: \<open>queues\<close>, \<open>games\<close>, \<open>courts\<close> and
  \<open>gameMetrics\<close>. Each document is a record with the fields the services read and write.
  Collections that are only looked up by id are maps; collections that are also queried
  (\<open>games\<close>, \<open>gameMetrics\<close>) are lists in insertion order. Timestamps are seconds.
\<close>

datatype team_key = Team1 | Team2

datatype error =
    QueueNotFound              \<comment> \<open>'Queue not found'\<close>
  | PlayerAlreadyInQueue       \<comment> \<open>'Player already in queue'\<close>
  | PlayerNotInQueue           \<comment> \<open>'Player not in queue'\<close>
  | GameNotFound               \<comment> \<open>'Game not found'\<close>
  | GameAlreadyEnded           \<comment> \<open>'Game already ended'\<close>
  | InvalidPlayerCount         \<comment> \<open>'Game requires exactly 4 players'\<close>
  | InvalidTeamConfiguration   \<comment> \<open>'Invalid team configuration'\<close>
  | DocumentNotFound           \<comment> \<open>the store rejects \<open>update\<close> of a missing document\<close>
  | TypeError                  \<comment> \<open>property read on \<open>undefined\<close>\<close>
  | InvalidArrayElement        \<comment> \<open>the store refuses \<open>serverTimestamp()\<close> inside an array\<close>

record queue_entry =
  playerId :: string
  joinedAt :: int
  position :: nat
  notified :: bool

record queue_doc =
  q_courtId :: string
  q_players :: "queue_entry list"
  q_updatedAt :: int

record teams =
  team1 :: "string list"
  team2 :: "string list"

record score =
  s_team1 :: int
  s_team2 :: int

record game =
  g_courtId :: string
  g_queueId :: string
  g_facilityId :: string
  g_players :: "string list"
  g_teams :: teams
  g_startedAt :: int
  g_endedAt :: "int option"
  g_duration :: "int option"
  g_score :: "score option"
  g_winner :: "team_key option"
  g_status :: string

record court_doc =
  c_facilityId :: string
  c_status :: string
  c_currentGame :: "string option"

record gameMetric =
  m_gameId :: string
  m_duration :: int
  m_players :: "string list"
  m_courtId :: string
  m_facilityId :: string
  m_timeOfDay :: int
  m_dayOfWeek :: int
  m_createdAt :: int

record db =
  queues :: "string \<rightharpoonup> queue_doc"
  games :: "(string \<times> game) list"
  courts :: "string \<rightharpoonup> court_doc"
  gameMetrics :: "gameMetric list"

text \<open>The server clock: \<open>Timestamp.now().seconds\<close>, \<open>getHours()\<close> and \<open>getDay()\<close>.\<close>

record clock =
  now_seconds :: int
  now_hours :: int
  now_day :: int

definition teamOf :: "team_key \<Rightarrow> teams \<Rightarrow> string list" where
  "teamOf k t = (case k of Team1 \<Rightarrow> team1 t | Team2 \<Rightarrow> team2 t)"


section \<open>QueueService.js\<close>

definition ROTATION_THRESHOLD :: nat where
  "ROTATION_THRESHOLD = 8"

definition MAX_CONSECUTIVE_WINS :: nat where
  "MAX_CONSECUTIVE_WINS = 3"

text \<open>
  \<open>FieldValue.arrayUnion\<close>: the element is appended unless an equal element is already
  in the array.
\<close>

definition arrayUnion :: "'a list \<Rightarrow> 'a \<Rightarrow> 'a list" where
  "arrayUnion xs x = (if x \<in> set xs then xs else xs @ [x])"

text \<open>
  The element that \<open>joinQueue\<close> hands to \<open>arrayUnion\<close> is not yet a stored entry: its
  \<open>joinedAt\<close> is the sentinel \<open>FieldValue.serverTimestamp()\<close>. The store resolves that
  sentinel only as the value of a document field; inside an array element it refuses it,
  and the \<open>update\<close> throws. \<open>arrayUnionElement\<close> is that validation: it yields the entry
  to append, or the error.
\<close>

datatype time_field = TimestampValue int | ServerTimestampSentinel

record queue_entry_write =
  w_playerId :: string
  w_joinedAt :: time_field
  w_position :: nat
  w_notified :: bool

definition arrayUnionElement :: "queue_entry_write \<Rightarrow> error + queue_entry" where
  "arrayUnionElement w =
     (case w_joinedAt w of
        ServerTimestampSentinel \<Rightarrow> Inl InvalidArrayElement
      | TimestampValue t \<Rightarrow>
          Inr \<lparr>playerId = w_playerId w, joinedAt = t, position = w_position w,
               notified = w_notified w\<rparr>)"

record join_result =
  jr_success :: bool
  jr_position :: nat
  jr_queueId :: string
  jr_playersAhead :: nat

text \<open>
  \<open>joinQueue\<close> runs in a transaction: a throw leaves the store as it was. Every operation
  returns the store after the call together with the error or the result.
\<close>

definition joinQueue :: "clock \<Rightarrow> db \<Rightarrow> string \<Rightarrow> string \<Rightarrow> db \<times> (error + join_result)" where
  "joinQueue clk d queueId pid =
     (case queues d queueId of
        None \<Rightarrow> (d, Inl QueueNotFound)
      | Some queueData \<Rightarrow>
          (let players = q_players queueData in
           if list_ex (\<lambda>p. playerId p = pid) players then (d, Inl PlayerAlreadyInQueue)
           else
             (let pos = length players + 1;
                  newPlayer = \<lparr>w_playerId = pid, w_joinedAt = ServerTimestampSentinel,
                               w_position = pos, w_notified = False\<rparr>
              in case arrayUnionElement newPlayer of
                   Inl e \<Rightarrow> (d, Inl e)
                 | Inr element \<Rightarrow>
                     (d\<lparr>queues := (queues d)(queueId \<mapsto>
                          queueData\<lparr>q_players := arrayUnion players element,
                                    q_updatedAt := now_seconds clk\<rparr>)\<rparr>,
                      Inr \<lparr>jr_success = True, jr_position = pos, jr_queueId = queueId,
                           jr_playersAhead = pos - 1\<rparr>))))"

text \<open>\<open>Array.findIndex\<close>, with \<open>None\<close> for \<open>-1\<close>; \<open>splice(i, 1)\<close>; the position recompute.\<close>

fun findIndex :: "('a \<Rightarrow> bool) \<Rightarrow> 'a list \<Rightarrow> nat option" where
  "findIndex P [] = None"
| "findIndex P (x # xs) = (if P x then Some 0 else map_option Suc (findIndex P xs))"

definition splice1 :: "nat \<Rightarrow> 'a list \<Rightarrow> 'a list" where
  "splice1 i xs = take i xs @ drop (Suc i) xs"

definition renumber :: "queue_entry list \<Rightarrow> queue_entry list" where
  "renumber ps = map (\<lambda>(idx, p). p\<lparr>position := idx + 1\<rparr>) (enumerate 0 ps)"

definition leaveQueue :: "clock \<Rightarrow> db \<Rightarrow> string \<Rightarrow> string \<Rightarrow> db \<times> (error + bool \<times> string)" where
  "leaveQueue clk d queueId pid =
     (case queues d queueId of
        None \<Rightarrow> (d, Inl QueueNotFound)
      | Some queueData \<Rightarrow>
          (case findIndex (\<lambda>p. playerId p = pid) (q_players queueData) of
             None \<Rightarrow> (d, Inl PlayerNotInQueue)
           | Some playerIndex \<Rightarrow>
               (let players = renumber (splice1 playerIndex (q_players queueData))
                in (d\<lparr>queues := (queues d)(queueId \<mapsto>
                         queueData\<lparr>q_players := players, q_updatedAt := now_seconds clk\<rparr>)\<rparr>,
                    Inr (True, queueId)))))"

record gameResult =
  winningTeam :: "string list"
  losingTeam :: "string list"
  winnerConsecutiveWins :: int

record rotation =
  rotationType :: string
  playersOff :: "string list"
  playersStay :: "string list"
  reason :: string
  nextUp :: "string list"

definition determineRotation :: "gameResult \<Rightarrow> queue_entry list \<Rightarrow> rotation" where
  "determineRotation gr queuePlayers =
     (let queueLength = length queuePlayers;
          winnersExceededLimit = (winnerConsecutiveWins gr \<ge> int MAX_CONSECUTIVE_WINS)
      in if queueLength \<ge> ROTATION_THRESHOLD \<or> winnersExceededLimit then
           \<lparr>rotationType = ''FULL'',
            playersOff = winningTeam gr @ losingTeam gr,
            playersStay = [],
            reason = (if winnersExceededLimit then ''consecutive_win_limit'' else ''high_demand''),
            nextUp = map playerId (take 4 queuePlayers)\<rparr>
         else
           \<lparr>rotationType = ''PARTIAL'',
            playersOff = losingTeam gr,
            playersStay = winningTeam gr,
            reason = ''normal_play'',
            nextUp = map playerId (take 2 queuePlayers)\<rparr>)"

text \<open>
  \<open>getConsecutiveWins\<close>: the query returns the completed games of the court, latest
  \<open>endedAt\<close> first (games whose \<open>endedAt\<close> is null last, games with equal \<open>endedAt\<close> in
  insertion order), at most \<open>MAX_CONSECUTIVE_WINS\<close> of them. The loop counts the leading
  games won by a team that contains every given player. A game without a winner makes
  \<open>winners.includes\<close> fail.
\<close>

definition recentCompletedGames :: "db \<Rightarrow> string \<Rightarrow> game list" where
  "recentCompletedGames d courtId =
     (let cs = filter (\<lambda>g. g_courtId g = courtId \<and> g_status g = ''completed'')
                 (map snd (games d))
      in take MAX_CONSECUTIVE_WINS
           (sort_key (\<lambda>g. case g_endedAt g of Some t \<Rightarrow> - t | None \<Rightarrow> 0)
              (filter (\<lambda>g. g_endedAt g \<noteq> None) cs)
            @ filter (\<lambda>g. g_endedAt g = None) cs))"

fun countWins :: "string list \<Rightarrow> game list \<Rightarrow> nat \<Rightarrow> error + nat" where
  "countWins playerIds [] consecutiveWins = Inr consecutiveWins"
| "countWins playerIds (g # gs) consecutiveWins =
     (case g_winner g of
        None \<Rightarrow> Inl TypeError
      | Some winnerKey \<Rightarrow>
          (if list_all (\<lambda>i. i \<in> set (teamOf winnerKey (g_teams g))) playerIds
           then countWins playerIds gs (consecutiveWins + 1)
           else Inr consecutiveWins))"

definition getConsecutiveWins :: "db \<Rightarrow> string list \<Rightarrow> string \<Rightarrow> error + nat" where
  "getConsecutiveWins d playerIds courtId = countWins playerIds (recentCompletedGames d courtId) 0"

record game_end_request =
  team1Score :: int
  team2Score :: int

record game_end_result =
  ge_gameId :: string
  ge_duration :: int
  ge_rotation :: rotation
  ge_updatedQueueLength :: nat

text \<open>
  \<open>processGameEnd\<close> runs in a transaction. Reading \<open>players\<close> of a queue document that
  does not exist is a \<open>TypeError\<close>; it happens after the consecutive-win query and before
  any write.
\<close>

definition processGameEnd ::
  "clock \<Rightarrow> db \<Rightarrow> string \<Rightarrow> game_end_request \<Rightarrow> db \<times> (error + game_end_result)" where
  "processGameEnd clk d gameId res =
     (case map_of (games d) gameId of
        None \<Rightarrow> (d, Inl GameNotFound)
      | Some gameData \<Rightarrow>
          (let now = now_seconds clk;
               duration = now - g_startedAt gameData;
               winningTeamKey = (if team1Score res > team2Score res then Team1 else Team2);
               losingTeamKey = (if winningTeamKey = Team1 then Team2 else Team1)
           in case getConsecutiveWins d (teamOf winningTeamKey (g_teams gameData))
                     (g_courtId gameData) of
                Inl e \<Rightarrow> (d, Inl e)
              | Inr wins \<Rightarrow>
                  (case queues d (g_queueId gameData) of
                     None \<Rightarrow> (d, Inl TypeError)
                   | Some queueData \<Rightarrow>
                       (let gr = \<lparr>winningTeam = teamOf winningTeamKey (g_teams gameData),
                                   losingTeam = teamOf losingTeamKey (g_teams gameData),
                                   winnerConsecutiveWins = int wins\<rparr>;
                            rot = determineRotation gr (q_players queueData);
                            gameData' = gameData\<lparr>
                              g_endedAt := Some now,
                              g_duration := Some duration,
                              g_score := Some \<lparr>s_team1 = team1Score res, s_team2 = team2Score res\<rparr>,
                              g_winner := Some winningTeamKey,
                              g_status := ''completed''\<rparr>;
                            updatedPlayers = renumber
                              (filter (\<lambda>p. playerId p \<notin> set (nextUp rot)) (q_players queueData))
                        in (d\<lparr>games := AList.update gameId gameData' (games d),
                              queues := (queues d)(g_queueId gameData \<mapsto>
                                 queueData\<lparr>q_players := updatedPlayers, q_updatedAt := now\<rparr>)\<rparr>,
                            Inr \<lparr>ge_gameId = gameId, ge_duration = duration, ge_rotation = rot,
                                 ge_updatedQueueLength = length updatedPlayers\<rparr>)))))"


section \<open>GameService.js\<close>

text \<open>
  The request's \<open>teams\<close> object may lack a team (\<open>!teams.team1\<close>); a stored game has both.
  The id of the new document is chosen by the store and is a parameter here.
  \<open>createGame\<close> and \<open>endGame\<close> write without a transaction: a failure of a later write
  leaves the earlier writes in the store.
\<close>

record teams_request =
  rq_team1 :: "string list option"
  rq_team2 :: "string list option"

record create_result =
  cg_gameId :: string
  cg_game :: game

definition createGame ::
  "clock \<Rightarrow> string \<Rightarrow> db \<Rightarrow> string \<Rightarrow> string \<Rightarrow> string list \<Rightarrow> teams_request \<Rightarrow> string
     \<Rightarrow> db \<times> (error + create_result)" where
  "createGame clk newId d courtId queueId players tms facilityId =
     (if length players \<noteq> 4 then (d, Inl InvalidPlayerCount)
      else
        (case (rq_team1 tms, rq_team2 tms) of
           (Some t1, Some t2) \<Rightarrow>
             (if length t1 \<noteq> 2 \<or> length t2 \<noteq> 2 then (d, Inl InvalidTeamConfiguration)
              else
                (let gameData = \<lparr>g_courtId = courtId, g_queueId = queueId,
                                  g_facilityId = facilityId, g_players = players,
                                  g_teams = \<lparr>team1 = t1, team2 = t2\<rparr>,
                                  g_startedAt = now_seconds clk, g_endedAt = None,
                                  g_duration = None, g_score = None, g_winner = None,
                                  g_status = ''in_progress''\<rparr>;
                     d1 = d\<lparr>games := games d @ [(newId, gameData)]\<rparr>
                 in case courts d1 courtId of
                      None \<Rightarrow> (d1, Inl DocumentNotFound)
                    | Some c \<Rightarrow>
                        (d1\<lparr>courts := (courts d1)(courtId \<mapsto>
                               c\<lparr>c_status := ''in_game'', c_currentGame := Some newId\<rparr>)\<rparr>,
                         Inr \<lparr>cg_gameId = newId, cg_game = gameData\<rparr>)))
         | _ \<Rightarrow> (d, Inl InvalidTeamConfiguration)))"

definition storeGameMetrics :: "clock \<Rightarrow> db \<Rightarrow> string \<Rightarrow> gameMetric \<Rightarrow> db" where
  "storeGameMetrics clk d gameId metrics =
     d\<lparr>gameMetrics := gameMetrics d @
          [metrics\<lparr>m_gameId := gameId, m_createdAt := now_seconds clk\<rparr>]\<rparr>"

record end_result =
  er_gameId :: string
  er_duration :: int
  er_score :: score
  er_winner :: team_key
  er_winningTeam :: "string list"
  er_losingTeam :: "string list"

definition endGame :: "clock \<Rightarrow> db \<Rightarrow> string \<Rightarrow> score \<Rightarrow> db \<times> (error + end_result)" where
  "endGame clk d gameId sc =
     (case map_of (games d) gameId of
        None \<Rightarrow> (d, Inl GameNotFound)
      | Some gameData \<Rightarrow>
          (if g_status gameData = ''completed'' then (d, Inl GameAlreadyEnded)
           else
             (let now = now_seconds clk;
                  duration = now - g_startedAt gameData;
                  winner = (if s_team1 sc > s_team2 sc then Team1 else Team2);
                  d1 = d\<lparr>games := AList.update gameId
                          (gameData\<lparr>g_endedAt := Some now, g_duration := Some duration,
                                    g_score := Some sc, g_winner := Some winner,
                                    g_status := ''completed''\<rparr>) (games d)\<rparr>
              in case courts d1 (g_courtId gameData) of
                   None \<Rightarrow> (d1, Inl DocumentNotFound)
                 | Some c \<Rightarrow>
                     (let d2 = d1\<lparr>courts := (courts d1)(g_courtId gameData \<mapsto>
                                   c\<lparr>c_status := ''available'', c_currentGame := None\<rparr>)\<rparr>;
                          d3 = storeGameMetrics clk d2 gameId
                                 \<lparr>m_gameId = gameId, m_duration = duration,
                                  m_players = g_players gameData,
                                  m_courtId = g_courtId gameData,
                                  m_facilityId = g_facilityId gameData,
                                  m_timeOfDay = now_hours clk, m_dayOfWeek = now_day clk,
                                  m_createdAt = now\<rparr>
                      in (d3,
                          Inr \<lparr>er_gameId = gameId, er_duration = duration, er_score = sc,
                               er_winner = winner,
                               er_winningTeam = teamOf winner (g_teams gameData),
                               er_losingTeam = teamOf (if winner = Team1 then Team2 else Team1)
                                                 (g_teams gameData)\<rparr>)))))"

text \<open>The in-progress games of one court, as \<open>getActiveGames\<close> selects them for a facility.\<close>

definition activeGamesOnCourt :: "db \<Rightarrow> string \<Rightarrow> (string \<times> game) list" where
  "activeGamesOnCourt d courtId =
     filter (\<lambda>(i, g). g_courtId g = courtId \<and> g_status g = ''in_progress'') (games d)"


section \<open>PredictionService.js\<close>

text \<open>
  JavaScript numbers are modelled as reals: \<open>Math.exp\<close> is \<open>exp\<close>, division is exact,
  \<open>Math.ceil\<close> is the ceiling and \<open>Math.round\<close> rounds half up.
\<close>

definition Math_round :: "real \<Rightarrow> int" where
  "Math_round x = \<lfloor>x + 1 / 2\<rfloor>"

definition DEFAULT_GAME_DURATION_SECONDS :: real where
  "DEFAULT_GAME_DURATION_SECONDS = 15 * 60"

definition MIN_GAMES_FOR_PREDICTION :: nat where
  "MIN_GAMES_FOR_PREDICTION = 10"

definition calculateWeightedAverage :: "real list \<Rightarrow> real" where
  "calculateWeightedAverage vals =
     (if length vals = 0 then DEFAULT_GAME_DURATION_SECONDS
      else
        (let weights = map (\<lambda>i. exp (- 0.05 * real i)) [0..<length vals];
             weightSum = foldl (\<lambda>a b. a + b) 0 weights;
             weightedSum = foldl (\<lambda>sum (i, val). sum + val * weights ! i) 0 (enumerate 0 vals)
         in weightedSum / weightSum))"

text \<open>
  The three queries of \<open>getAverageGameDuration\<close>. \<open>orderBy('createdAt', 'desc')\<close> is a
  stable sort on the negated timestamp; the contextual query orders by \<open>timeOfDay\<close> first.
\<close>

definition contextualGames :: "clock \<Rightarrow> db \<Rightarrow> string \<Rightarrow> gameMetric list" where
  "contextualGames clk d courtId =
     take 50 (sort_key m_timeOfDay (sort_key (\<lambda>m. - m_createdAt m)
       (filter (\<lambda>m. m_courtId m = courtId \<and> m_timeOfDay m \<ge> now_hours clk - 1
                     \<and> m_timeOfDay m \<le> now_hours clk + 1) (gameMetrics d))))"

definition allGames :: "db \<Rightarrow> string \<Rightarrow> gameMetric list" where
  "allGames d courtId =
     take 100 (sort_key (\<lambda>m. - m_createdAt m)
       (filter (\<lambda>m. m_courtId m = courtId) (gameMetrics d)))"

definition facilityGames :: "db \<Rightarrow> string \<Rightarrow> gameMetric list" where
  "facilityGames d facilityId =
     take 200 (sort_key (\<lambda>m. - m_createdAt m)
       (filter (\<lambda>m. m_facilityId m = facilityId) (gameMetrics d)))"

definition durations :: "gameMetric list \<Rightarrow> real list" where
  "durations ms = map (\<lambda>m. real_of_int (m_duration m)) ms"

definition getAverageGameDuration :: "clock \<Rightarrow> db \<Rightarrow> string \<Rightarrow> real" where
  "getAverageGameDuration clk d courtId =
     (if length (contextualGames clk d courtId) \<ge> MIN_GAMES_FOR_PREDICTION
      then calculateWeightedAverage (durations (contextualGames clk d courtId))
      else if length (allGames d courtId) \<ge> MIN_GAMES_FOR_PREDICTION
      then calculateWeightedAverage (durations (allGames d courtId))
      else
        (case courts d courtId of
           Some courtDoc \<Rightarrow>
             (if length (facilityGames d (c_facilityId courtDoc)) \<ge> MIN_GAMES_FOR_PREDICTION
              then calculateWeightedAverage (durations (facilityGames d (c_facilityId courtDoc)))
              else DEFAULT_GAME_DURATION_SECONDS)
         | None \<Rightarrow> DEFAULT_GAME_DURATION_SECONDS))"

definition calculateConfidence :: "db \<Rightarrow> string \<Rightarrow> string" where
  "calculateConfidence d courtId =
     (let recentGames = allGames d courtId
      in if length recentGames \<ge> 100 then ''high''
         else if length recentGames \<ge> 30 then ''medium''
         else ''low'')"

record prediction =
  estimatedWaitMinutes :: int
  estimatedWaitSeconds :: int
  gamesUntilUp :: int
  averageGameDuration :: int
  confidence :: string
  calculatedAt :: int

text \<open>
  \<open>predictWaitTime\<close> of the backend. The source does not await \<open>calculateConfidence\<close>;
  the field holds the value that call resolves to.
\<close>

definition predictWaitTime :: "clock \<Rightarrow> db \<Rightarrow> string \<Rightarrow> int \<Rightarrow> error + prediction" where
  "predictWaitTime clk d queueId pos =
     (case queues d queueId of
        None \<Rightarrow> Inl QueueNotFound
      | Some queueData \<Rightarrow>
          (let courtId = q_courtId queueData;
               avgDuration = getAverageGameDuration clk d courtId;
               untilUp = \<lceil>real_of_int pos / 2\<rceil>;
               waitSeconds = real_of_int untilUp * avgDuration
           in Inr \<lparr>estimatedWaitMinutes = Math_round (waitSeconds / 60),
                   estimatedWaitSeconds = Math_round waitSeconds,
                   gamesUntilUp = untilUp,
                   averageGameDuration = Math_round (avgDuration / 60),
                   confidence = calculateConfidence d courtId,
                   calculatedAt = now_seconds clk\<rparr>))"


section \<open>The mobile app: game duration service and mock data\<close>

text \<open>
  The app's own \<open>predictWaitTime(position, avgDurationMinutes, activeCourts = 1)\<close>;
  an omitted third argument is \<open>None\<close>. \<open>gamesNeeded\<close> is its local constant of that name.
\<close>

definition playersPerGame :: int where
  "playersPerGame = 4"

definition gamesNeeded :: "int \<Rightarrow> int" where
  "gamesNeeded pos = \<lceil>real_of_int pos / real_of_int playersPerGame\<rceil>"

definition estimatedMinutes :: "int \<Rightarrow> real \<Rightarrow> real option \<Rightarrow> real" where
  "estimatedMinutes pos avgDurationMinutes activeCourts =
     (let parallelEfficiency = 0.7;
          effectiveCourts = max 1 ((case activeCourts of None \<Rightarrow> 1 | Some a \<Rightarrow> a)
                                   * parallelEfficiency)
      in (real_of_int (gamesNeeded pos) * avgDurationMinutes) / effectiveCourts)"

definition app_predictWaitTime :: "int \<Rightarrow> real \<Rightarrow> real option \<Rightarrow> int" where
  "app_predictWaitTime pos avgDurationMinutes activeCourts =
     (if pos \<le> 0 then 0
      else max 0 (Math_round (estimatedMinutes pos avgDurationMinutes activeCourts / 5) * 5))"

record mock_prediction =
  mp_estimatedWaitMinutes :: int
  mp_gamesUntilUp :: int
  mp_averageGameDuration :: int
  mp_confidence :: string

definition calculatePrediction :: "int \<Rightarrow> int \<Rightarrow> mock_prediction" where
  "calculatePrediction queueLength pos =
     (let avgGameDuration = 15;
          untilUp = \<lceil>real_of_int pos / 4\<rceil>
      in \<lparr>mp_estimatedWaitMinutes = untilUp * avgGameDuration,
          mp_gamesUntilUp = untilUp,
          mp_averageGameDuration = avgGameDuration,
          mp_confidence = (if queueLength < 10 then ''low''
                           else if queueLength < 50 then ''medium'' else ''high'')\<rparr>)"


section \<open>Properties of the store\<close>

text \<open>
  The queue invariant: positions are \<open>1..n\<close> in list order and no player id occurs twice.
  \<open>queue_ok\<close> states it for one queue of the store, \<open>queueIds\<close> reads the player ids of
  a queue in order.
\<close>

definition queue_invariant :: "queue_entry list \<Rightarrow> bool" where
  "queue_invariant ps \<longleftrightarrow>
     map position ps = [1..<Suc (length ps)] \<and> distinct (map playerId ps)"

definition queue_ok :: "db \<Rightarrow> string \<Rightarrow> bool" where
  "queue_ok d queueId =
     (case queues d queueId of None \<Rightarrow> True | Some qd \<Rightarrow> queue_invariant (q_players qd))"

definition queueIds :: "db \<Rightarrow> string \<Rightarrow> string list" where
  "queueIds d queueId =
     (case queues d queueId of None \<Rightarrow> [] | Some qd \<Rightarrow> map playerId (q_players qd))"

text \<open>
  The operations that change a queue, and a run of them; a failed operation leaves the
  store as the operation left it (for these three, unchanged).
\<close>

datatype queue_op =
    Join clock string string
  | Leave clock string string
  | GameEnd clock string game_end_request

fun apply_op :: "db \<Rightarrow> queue_op \<Rightarrow> db" where
  "apply_op d (Join clk queueId pid) = fst (joinQueue clk d queueId pid)"
| "apply_op d (Leave clk queueId pid) = fst (leaveQueue clk d queueId pid)"
| "apply_op d (GameEnd clk gameId res) = fst (processGameEnd clk d gameId res)"

definition run_ops :: "db \<Rightarrow> queue_op list \<Rightarrow> db" where
  "run_ops d ops = foldl apply_op d ops"

text \<open>
  One step from store \<open>d\<close> to \<open>d'\<close> keeps a valid queue valid, and its new list of ids
  is the ids that survive, in their old order, followed by the ids that are new.
\<close>

definition step_ok :: "db \<Rightarrow> db \<Rightarrow> string \<Rightarrow> bool" where
  "step_ok d d' q \<longleftrightarrow> (queue_ok d q \<longrightarrow> queue_ok d' q \<and>
      queueIds d' q = filter (\<lambda>x. x \<in> set (queueIds d' q)) (queueIds d q)
                       @ filter (\<lambda>x. x \<notin> set (queueIds d q)) (queueIds d' q))"



section \<open>Rotation decisions\<close>

text \<open>
  C1. Whenever the winners have at least three consecutive wins, \<open>determineRotation\<close>
  returns a FULL rotation for every queue, also a short one: all players of both teams
  go off, nobody stays, and the reason is \<open>consecutive_win_limit\<close>; the next up are the
  first four of the queue, or all of it when it holds fewer.
\<close>

theorem determineRotation_consecutive_win_limit:
  "3 \<le> winnerConsecutiveWins gr \<Longrightarrow>
     rotationType (determineRotation gr q) = ''FULL''
   \<and> playersOff (determineRotation gr q) = winningTeam gr @ losingTeam gr
   \<and> playersStay (determineRotation gr q) = []
   \<and> reason (determineRotation gr q) = ''consecutive_win_limit''
   \<and> nextUp (determineRotation gr q) = map playerId (take 4 q)"
  by (simp add: determineRotation_def MAX_CONSECUTIVE_WINS_def)

theorem determineRotation_consecutive_win_limit_witness:
  "(3::int) \<le> winnerConsecutiveWins
       \<lparr>winningTeam = [''a'', ''b''], losingTeam = [''c'', ''d''], winnerConsecutiveWins = 3\<rparr>
   \<and> length [\<lparr>playerId = ''e'', joinedAt = 0, position = 1, notified = False\<rparr>,
              \<lparr>playerId = ''f'', joinedAt = 0, position = 2, notified = False\<rparr>] < 8
   \<and> rotationType (determineRotation
        \<lparr>winningTeam = [''a'', ''b''], losingTeam = [''c'', ''d''], winnerConsecutiveWins = 3\<rparr>
        [\<lparr>playerId = ''e'', joinedAt = 0, position = 1, notified = False\<rparr>,
         \<lparr>playerId = ''f'', joinedAt = 0, position = 2, notified = False\<rparr>]) = ''FULL''
   \<and> playersOff (determineRotation
        \<lparr>winningTeam = [''a'', ''b''], losingTeam = [''c'', ''d''], winnerConsecutiveWins = 3\<rparr>
        [\<lparr>playerId = ''e'', joinedAt = 0, position = 1, notified = False\<rparr>,
         \<lparr>playerId = ''f'', joinedAt = 0, position = 2, notified = False\<rparr>])
       = [''a'', ''b'', ''c'', ''d'']
   \<and> reason (determineRotation
        \<lparr>winningTeam = [''a'', ''b''], losingTeam = [''c'', ''d''], winnerConsecutiveWins = 3\<rparr>
        [\<lparr>playerId = ''e'', joinedAt = 0, position = 1, notified = False\<rparr>,
         \<lparr>playerId = ''f'', joinedAt = 0, position = 2, notified = False\<rparr>])
       = ''consecutive_win_limit''
   \<and> nextUp (determineRotation
        \<lparr>winningTeam = [''a'', ''b''], losingTeam = [''c'', ''d''], winnerConsecutiveWins = 3\<rparr>
        [\<lparr>playerId = ''e'', joinedAt = 0, position = 1, notified = False\<rparr>,
         \<lparr>playerId = ''f'', joinedAt = 0, position = 2, notified = False\<rparr>])
       = [''e'', ''f'']"
  using determineRotation_consecutive_win_limit
    [of "\<lparr>winningTeam = [''a'', ''b''], losingTeam = [''c'', ''d''], winnerConsecutiveWins = 3\<rparr>"
        "[\<lparr>playerId = ''e'', joinedAt = 0, position = 1, notified = False\<rparr>,
          \<lparr>playerId = ''f'', joinedAt = 0, position = 2, notified = False\<rparr>]"]
  by simp

text \<open>
  C2. Below the win limit the queue length decides. With eight or more waiting the
  rotation is FULL, both teams go off, the reason is \<open>high_demand\<close> and the next up are
  the first four of the queue. With fewer than eight it is PARTIAL: exactly the losing
  team goes off, the winning team stays, the reason is \<open>normal_play\<close> and the next up are
  the first two of the queue, or all of it when it holds fewer.
\<close>

theorem determineRotation_by_queue_length:
  "winnerConsecutiveWins gr < 3 \<Longrightarrow>
     (8 \<le> length q \<longrightarrow>
          rotationType (determineRotation gr q) = ''FULL''
        \<and> playersOff (determineRotation gr q) = winningTeam gr @ losingTeam gr
        \<and> playersStay (determineRotation gr q) = []
        \<and> reason (determineRotation gr q) = ''high_demand''
        \<and> nextUp (determineRotation gr q) = map playerId (take 4 q)
        \<and> length (nextUp (determineRotation gr q)) = 4)
   \<and> (length q < 8 \<longrightarrow>
          rotationType (determineRotation gr q) = ''PARTIAL''
        \<and> playersOff (determineRotation gr q) = losingTeam gr
        \<and> playersStay (determineRotation gr q) = winningTeam gr
        \<and> reason (determineRotation gr q) = ''normal_play''
        \<and> nextUp (determineRotation gr q) = map playerId (take 2 q)
        \<and> length (nextUp (determineRotation gr q)) = min 2 (length q))"
  by (simp add: determineRotation_def MAX_CONSECUTIVE_WINS_def ROTATION_THRESHOLD_def min_def)

theorem determineRotation_by_queue_length_witness:
  "winnerConsecutiveWins
       \<lparr>winningTeam = [''a'', ''b''], losingTeam = [''c'', ''d''], winnerConsecutiveWins = 0\<rparr> < 3
   \<and> determineRotation
       \<lparr>winningTeam = [''a'', ''b''], losingTeam = [''c'', ''d''], winnerConsecutiveWins = 0\<rparr>
       (map (\<lambda>(s, n). \<lparr>playerId = s, joinedAt = 0, position = n, notified = False\<rparr>)
          [(''e'', 1), (''f'', 2), (''g'', 3), (''h'', 4), (''i'', 5), (''j'', 6), (''k'', 7)])
     = \<lparr>rotationType = ''PARTIAL'', playersOff = [''c'', ''d''], playersStay = [''a'', ''b''],
        reason = ''normal_play'', nextUp = [''e'', ''f'']\<rparr>
   \<and> determineRotation
       \<lparr>winningTeam = [''a'', ''b''], losingTeam = [''c'', ''d''], winnerConsecutiveWins = 0\<rparr>
       (map (\<lambda>(s, n). \<lparr>playerId = s, joinedAt = 0, position = n, notified = False\<rparr>)
          [(''e'', 1), (''f'', 2), (''g'', 3), (''h'', 4), (''i'', 5), (''j'', 6), (''k'', 7),
           (''l'', 8)])
     = \<lparr>rotationType = ''FULL'', playersOff = [''a'', ''b'', ''c'', ''d''], playersStay = [],
        reason = ''high_demand'', nextUp = [''e'', ''f'', ''g'', ''h'']\<rparr>
   \<and> nextUp (determineRotation
       \<lparr>winningTeam = [''a'', ''b''], losingTeam = [''c'', ''d''], winnerConsecutiveWins = 0\<rparr> [])
     = []"
  using determineRotation_by_queue_length
    [of "\<lparr>winningTeam = [''a'', ''b''], losingTeam = [''c'', ''d''], winnerConsecutiveWins = 0\<rparr>"
        "map (\<lambda>(s, n). \<lparr>playerId = s, joinedAt = 0, position = n, notified = False\<rparr>)
          [(''e'', 1), (''f'', 2), (''g'', 3), (''h'', 4), (''i'', 5), (''j'', 6), (''k'', 7)]"]
    determineRotation_by_queue_length
    [of "\<lparr>winningTeam = [''a'', ''b''], losingTeam = [''c'', ''d''], winnerConsecutiveWins = 0\<rparr>"
        "map (\<lambda>(s, n). \<lparr>playerId = s, joinedAt = 0, position = n, notified = False\<rparr>)
          [(''e'', 1), (''f'', 2), (''g'', 3), (''h'', 4), (''i'', 5), (''j'', 6), (''k'', 7),
           (''l'', 8)]"]
    determineRotation_by_queue_length
    [of "\<lparr>winningTeam = [''a'', ''b''], losingTeam = [''c'', ''d''], winnerConsecutiveWins = 0\<rparr>"
        "[]"]
  by (simp add: rotation.equality)


section \<open>Joining a queue\<close>

lemma list_ex_playerId: "list_ex (\<lambda>p. playerId p = pid) ps \<longleftrightarrow> pid \<in> playerId ` set ps"
  by (auto simp: list_ex_iff)

lemma joinQueue_store_unchanged: "fst (joinQueue clk d queueId pid) = d"
  by (simp add: joinQueue_def Let_def arrayUnionElement_def split: option.splits)

text \<open>
  C5 asks that \<open>joinQueue\<close> rejects a player id that is already in the queue, leaving the
  queue unchanged, and appends a new id at the tail with the new length as its position.
  The first half holds. The second does not: for the new id \<open>b\<close> on a queue that holds
  \<open>a\<close>, the element built for \<open>arrayUnion\<close> carries the \<open>serverTimestamp()\<close> sentinel, the
  update throws, and the store is as before, with no position returned.
\<close>

theorem joinQueue_new_id_throws:
  "joinQueue \<lparr>now_seconds = 9, now_hours = 10, now_day = 1\<rparr>
        \<lparr>queues = [''q1'' \<mapsto> \<lparr>q_courtId = ''c1'',
                q_players = [\<lparr>playerId = ''a'', joinedAt = 5, position = 1, notified = False\<rparr>],
                q_updatedAt = 5\<rparr>],
            games = [], courts = Map.empty, gameMetrics = []\<rparr> ''q1'' ''a''
     = (\<lparr>queues = [''q1'' \<mapsto> \<lparr>q_courtId = ''c1'',
                q_players = [\<lparr>playerId = ''a'', joinedAt = 5, position = 1, notified = False\<rparr>],
                q_updatedAt = 5\<rparr>],
            games = [], courts = Map.empty, gameMetrics = []\<rparr>, Inl PlayerAlreadyInQueue)
   \<and> joinQueue \<lparr>now_seconds = 9, now_hours = 10, now_day = 1\<rparr>
        \<lparr>queues = [''q1'' \<mapsto> \<lparr>q_courtId = ''c1'',
                q_players = [\<lparr>playerId = ''a'', joinedAt = 5, position = 1, notified = False\<rparr>],
                q_updatedAt = 5\<rparr>],
            games = [], courts = Map.empty, gameMetrics = []\<rparr> ''q1'' ''b''
     = (\<lparr>queues = [''q1'' \<mapsto> \<lparr>q_courtId = ''c1'',
                q_players = [\<lparr>playerId = ''a'', joinedAt = 5, position = 1, notified = False\<rparr>],
                q_updatedAt = 5\<rparr>],
            games = [], courts = Map.empty, gameMetrics = []\<rparr>, Inl InvalidArrayElement)"
  by (simp add: joinQueue_def Let_def arrayUnionElement_def)


section \<open>The queue invariant\<close>

lemma renumber_ids: "map playerId (renumber ps) = map playerId ps"
proof -
  have "map playerId (renumber ps) = map (\<lambda>(i, p). playerId p) (enumerate 0 ps)"
    by (simp add: renumber_def case_prod_unfold)
  also have "\<dots> = map playerId (map snd (enumerate 0 ps))"
    by (simp only: map_map comp_def case_prod_unfold)
  finally show ?thesis by simp
qed

lemma renumber_length: "length (renumber ps) = length ps"
  by (simp add: renumber_def)

lemma renumber_positions: "map position (renumber ps) = [1..<Suc (length ps)]"
proof -
  have "map position (renumber ps) = map (\<lambda>(i, p). Suc i) (enumerate 0 ps)"
    by (simp add: renumber_def case_prod_unfold)
  also have "\<dots> = map Suc (map fst (enumerate 0 ps))"
    by (simp only: map_map comp_def case_prod_unfold)
  also have "\<dots> = map Suc [0..<length ps]" by simp
  also have "\<dots> = [1..<Suc (length ps)]" by (simp add: map_Suc_upt)
  finally show ?thesis .
qed

lemma filter_ids:
  "map playerId (filter (\<lambda>p. Q (playerId p)) ps) = filter Q (map playerId ps)"
  by (simp add: filter_map comp_def)

lemma queue_invariant_removal:
  "distinct (map playerId ps) \<Longrightarrow> queue_invariant (renumber (filter (\<lambda>p. Q (playerId p)) ps))"
  by (simp add: queue_invariant_def renumber_positions renumber_length renumber_ids filter_ids)

lemma splice1_is_filter:
  "distinct (map playerId ps) \<Longrightarrow> findIndex (\<lambda>p. playerId p = pid) ps = Some i \<Longrightarrow>
     splice1 i ps = filter (\<lambda>p. playerId p \<noteq> pid) ps"
proof (induction ps arbitrary: i)
  case Nil
  then show ?case by simp
next
  case (Cons x xs)
  show ?case
  proof (cases "playerId x = pid")
    case True
    from True Cons.prems(2) have "i = 0" by simp
    moreover have "\<forall>p\<in>set xs. playerId p \<noteq> pid"
    proof
      fix p assume "p \<in> set xs"
      then have "playerId p \<in> playerId ` set xs" by (rule imageI)
      moreover from Cons.prems(1) have "playerId x \<notin> playerId ` set xs" by simp
      ultimately show "playerId p \<noteq> pid" using True by metis
    qed
    ultimately show ?thesis using True by (simp add: splice1_def)
  next
    case False
    with Cons.prems obtain j where j: "findIndex (\<lambda>p. playerId p = pid) xs = Some j" "i = Suc j"
      by auto
    with Cons.IH [of j] Cons.prems(1) False show ?thesis by (simp add: splice1_def)
  qed
qed

lemma survivors_then_newcomers_filter:
  "filter Q ids = filter (\<lambda>x. x \<in> set (filter Q ids)) ids @ filter (\<lambda>x. x \<notin> set ids) (filter Q ids)"
proof -
  have "filter (\<lambda>x. x \<in> set (filter Q ids)) ids = filter Q ids"
    by (rule filter_cong) auto
  moreover have "filter (\<lambda>x. x \<notin> set ids) (filter Q ids) = []"
    by (simp add: filter_empty_conv)
  ultimately show ?thesis by simp
qed

lemma survivors_then_newcomers_same:
  "ids = filter (\<lambda>x. x \<in> set ids) ids @ filter (\<lambda>x. x \<notin> set ids) ids"
  using survivors_then_newcomers_filter [of "\<lambda>x. True" ids] by simp

lemma step_ok_refl: "step_ok d d q"
  using survivors_then_newcomers_same by (simp add: step_ok_def)

lemma step_ok_other:
  "queues d' q = queues d q \<Longrightarrow> step_ok d d' q"
  using survivors_then_newcomers_same by (simp add: step_ok_def queue_ok_def queueIds_def)

lemma step_ok_removal:
  assumes "queues d q = Some qd"
    and "queues d' q = Some (qd\<lparr>q_players := renumber (filter (\<lambda>p. Q (playerId p)) (q_players qd)), q_updatedAt := t\<rparr>)"
  shows "step_ok d d' q"
  unfolding step_ok_def
proof
  assume "queue_ok d q"
  with assms(1) have dist: "distinct (map playerId (q_players qd))"
    by (simp add: queue_ok_def queue_invariant_def)
  then have inv: "queue_ok d' q"
    using assms(2) by (simp add: queue_ok_def queue_invariant_removal)
  have before: "queueIds d q = map playerId (q_players qd)"
    using assms(1) by (simp add: queueIds_def)
  have after: "queueIds d' q = filter Q (map playerId (q_players qd))"
    using assms(2) by (simp add: queueIds_def renumber_ids filter_ids)
  show "queue_ok d' q \<and>
    queueIds d' q = filter (\<lambda>x. x \<in> set (queueIds d' q)) (queueIds d q)
                    @ filter (\<lambda>x. x \<notin> set (queueIds d q)) (queueIds d' q)"
    unfolding before after
    using inv survivors_then_newcomers_filter [of Q "map playerId (q_players qd)"] by blast
qed

lemma joinQueue_step: "step_ok d (fst (joinQueue clk d queueId pid)) q"
  by (simp add: joinQueue_store_unchanged step_ok_refl)

lemma leaveQueue_step: "step_ok d (fst (leaveQueue clk d queueId pid)) q"
proof (cases "queues d queueId")
  case None
  then show ?thesis by (simp add: leaveQueue_def step_ok_refl)
next
  case (Some qd)
  show ?thesis
  proof (cases "findIndex (\<lambda>p. playerId p = pid) (q_players qd)")
    case None
    with Some show ?thesis by (simp add: leaveQueue_def step_ok_refl)
  next
    case (Some i)
    show ?thesis
    proof (cases "q = queueId")
      case False
      with Some \<open>queues d queueId = Some qd\<close> show ?thesis
        by (intro step_ok_other) (simp add: leaveQueue_def Let_def)
    next
      case True
      show ?thesis
        unfolding step_ok_def
      proof
        assume ok: "queue_ok d q"
        with True \<open>queues d queueId = Some qd\<close> have dist: "distinct (map playerId (q_players qd))"
          by (simp add: queue_ok_def queue_invariant_def)
        have sp: "splice1 i (q_players qd) = filter (\<lambda>p. playerId p \<noteq> pid) (q_players qd)"
          using dist Some by (rule splice1_is_filter)
        have "step_ok d (fst (leaveQueue clk d queueId pid)) q"
          using True \<open>queues d queueId = Some qd\<close> Some sp
          by (intro step_ok_removal [where qd = qd and Q = "\<lambda>x. x \<noteq> pid"])
             (simp_all add: leaveQueue_def Let_def)
        with ok show "queue_ok (fst (leaveQueue clk d queueId pid)) q \<and>
          queueIds (fst (leaveQueue clk d queueId pid)) q =
            filter (\<lambda>x. x \<in> set (queueIds (fst (leaveQueue clk d queueId pid)) q)) (queueIds d q)
            @ filter (\<lambda>x. x \<notin> set (queueIds d q)) (queueIds (fst (leaveQueue clk d queueId pid)) q)"
          by (simp add: step_ok_def)
      qed
    qed
  qed
qed

lemma processGameEnd_step: "step_ok d (fst (processGameEnd clk d gameId res)) q"
proof (cases "map_of (games d) gameId")
  case None
  then show ?thesis by (simp add: processGameEnd_def step_ok_refl)
next
  case (Some g)
  let ?k = "if team1Score res > team2Score res then Team1 else Team2"
  show ?thesis
  proof (cases "getConsecutiveWins d (teamOf ?k (g_teams g)) (g_courtId g)")
    case (Inl e)
    with Some show ?thesis by (simp add: processGameEnd_def Let_def step_ok_refl)
  next
    case (Inr wins)
    show ?thesis
    proof (cases "queues d (g_queueId g)")
      case None
      with Some Inr show ?thesis by (simp add: processGameEnd_def Let_def step_ok_refl)
    next
      case (Some qd)
      show ?thesis
      proof (cases "q = g_queueId g")
        case False
        with Some Inr \<open>map_of (games d) gameId = Some g\<close> show ?thesis
          by (intro step_ok_other) (simp add: processGameEnd_def Let_def)
      next
        case True
        with Some Inr \<open>map_of (games d) gameId = Some g\<close> show ?thesis
          by (intro step_ok_removal [where qd = qd])
             (simp_all add: processGameEnd_def Let_def)
      qed
    qed
  qed
qed

lemma apply_op_step: "step_ok d (apply_op d op) q"
  by (cases op) (simp_all add: joinQueue_step leaveQueue_step processGameEnd_step)

lemma run_ops_ok: "queue_ok d q \<Longrightarrow> queue_ok (run_ops d ops) q"
  unfolding run_ops_def
proof (induction ops arbitrary: d)
  case Nil
  then show ?case by simp
next
  case (Cons op ops)
  from Cons.prems apply_op_step [of d op q] have "queue_ok (apply_op d op) q"
    by (simp add: step_ok_def)
  then show ?case using Cons.IH by simp
qed

text \<open>
  C4. Starting from a queue that satisfies the invariant, after every sequence of joins,
  leaves and game ends the queue still has the positions \<open>1..n\<close> in list order and no
  player id twice; and any further operation leaves the remaining entries in their
  previous relative order, with any new id after them. (A join changes nothing in the
  store; leaves and game ends remove entries and renumber the rest.)
\<close>

theorem queue_invariant_preserved:
  "queue_ok d q \<Longrightarrow>
     queue_ok (run_ops d ops) q
   \<and> queue_ok (apply_op (run_ops d ops) op) q
   \<and> queueIds (apply_op (run_ops d ops) op) q
       = filter (\<lambda>x. x \<in> set (queueIds (apply_op (run_ops d ops) op) q)) (queueIds (run_ops d ops) q)
         @ filter (\<lambda>x. x \<notin> set (queueIds (run_ops d ops) q)) (queueIds (apply_op (run_ops d ops) op) q)"
  using run_ops_ok [of d q ops] apply_op_step [of "run_ops d ops" op q]
  by (simp add: step_ok_def)

theorem queue_invariant_preserved_witness:
  "(let d = \<lparr>queues = [''q1'' \<mapsto> \<lparr>q_courtId = ''c1'',
               q_players = [\<lparr>playerId = ''e'', joinedAt = 1, position = 1, notified = False\<rparr>,
                            \<lparr>playerId = ''f'', joinedAt = 2, position = 2, notified = False\<rparr>,
                            \<lparr>playerId = ''g'', joinedAt = 3, position = 3, notified = False\<rparr>,
                            \<lparr>playerId = ''h'', joinedAt = 4, position = 4, notified = False\<rparr>,
                            \<lparr>playerId = ''i'', joinedAt = 5, position = 5, notified = False\<rparr>],
               q_updatedAt = 5\<rparr>],
             games = [(''g1'', \<lparr>g_courtId = ''c1'', g_queueId = ''q1'', g_facilityId = ''f1'',
                        g_players = [''a'', ''b'', ''c'', ''d''],
                        g_teams = \<lparr>team1 = [''a'', ''b''], team2 = [''c'', ''d'']\<rparr>,
                        g_startedAt = 100, g_endedAt = None, g_duration = None, g_score = None,
                        g_winner = None, g_status = ''in_progress''\<rparr>)],
             courts = Map.empty, gameMetrics = []\<rparr>;
        ops = [Join \<lparr>now_seconds = 6, now_hours = 10, now_day = 1\<rparr> ''q1'' ''j'',
               Leave \<lparr>now_seconds = 7, now_hours = 10, now_day = 1\<rparr> ''q1'' ''f'',
               Join \<lparr>now_seconds = 8, now_hours = 10, now_day = 1\<rparr> ''q1'' ''e'',
               GameEnd \<lparr>now_seconds = 700, now_hours = 10, now_day = 1\<rparr> ''g1''
                 \<lparr>team1Score = 11, team2Score = 5\<rparr>];
        op = Leave \<lparr>now_seconds = 800, now_hours = 10, now_day = 1\<rparr> ''q1'' ''h''
    in queue_ok d ''q1''
     \<and> queueIds d ''q1'' = [''e'', ''f'', ''g'', ''h'', ''i'']
     \<and> queue_ok (run_ops d ops) ''q1''
     \<and> queueIds (run_ops d ops) ''q1'' = [''h'', ''i'']
     \<and> queue_ok (apply_op (run_ops d ops) op) ''q1''
     \<and> queueIds (apply_op (run_ops d ops) op) ''q1'' = [''i''])"
proof -
  let ?d = "\<lparr>queues = [''q1'' \<mapsto> \<lparr>q_courtId = ''c1'',
               q_players = [\<lparr>playerId = ''e'', joinedAt = 1, position = 1, notified = False\<rparr>,
                            \<lparr>playerId = ''f'', joinedAt = 2, position = 2, notified = False\<rparr>,
                            \<lparr>playerId = ''g'', joinedAt = 3, position = 3, notified = False\<rparr>,
                            \<lparr>playerId = ''h'', joinedAt = 4, position = 4, notified = False\<rparr>,
                            \<lparr>playerId = ''i'', joinedAt = 5, position = 5, notified = False\<rparr>],
               q_updatedAt = 5\<rparr>],
             games = [(''g1'', \<lparr>g_courtId = ''c1'', g_queueId = ''q1'', g_facilityId = ''f1'',
                        g_players = [''a'', ''b'', ''c'', ''d''],
                        g_teams = \<lparr>team1 = [''a'', ''b''], team2 = [''c'', ''d'']\<rparr>,
                        g_startedAt = 100, g_endedAt = None, g_duration = None, g_score = None,
                        g_winner = None, g_status = ''in_progress''\<rparr>)],
             courts = Map.empty, gameMetrics = []\<rparr>"
  let ?ops = "[Join \<lparr>now_seconds = 6, now_hours = 10, now_day = 1\<rparr> ''q1'' ''j'',
               Leave \<lparr>now_seconds = 7, now_hours = 10, now_day = 1\<rparr> ''q1'' ''f'',
               Join \<lparr>now_seconds = 8, now_hours = 10, now_day = 1\<rparr> ''q1'' ''e'',
               GameEnd \<lparr>now_seconds = 700, now_hours = 10, now_day = 1\<rparr> ''g1''
                 \<lparr>team1Score = 11, team2Score = 5\<rparr>]"
  let ?op = "Leave \<lparr>now_seconds = 800, now_hours = 10, now_day = 1\<rparr> ''q1'' ''h''"
  have ok: "queue_ok ?d ''q1''"
    by (simp add: queue_ok_def queue_invariant_def)
  have ids0: "queueIds ?d ''q1'' = [''e'', ''f'', ''g'', ''h'', ''i'']"
    by (simp add: queueIds_def)
  have ids: "queueIds (run_ops ?d ?ops) ''q1'' = [''h'', ''i'']"
    by (simp add: queueIds_def run_ops_def joinQueue_def leaveQueue_def processGameEnd_def Let_def
        arrayUnionElement_def splice1_def renumber_def getConsecutiveWins_def
        recentCompletedGames_def determineRotation_def MAX_CONSECUTIVE_WINS_def
        ROTATION_THRESHOLD_def teamOf_def)
  have ids': "queueIds (apply_op (run_ops ?d ?ops) ?op) ''q1'' = [''i'']"
    by (simp add: queueIds_def run_ops_def joinQueue_def leaveQueue_def processGameEnd_def Let_def
        arrayUnionElement_def splice1_def renumber_def getConsecutiveWins_def
        recentCompletedGames_def determineRotation_def MAX_CONSECUTIVE_WINS_def
        ROTATION_THRESHOLD_def teamOf_def)
  from queue_invariant_preserved [OF ok, of ?ops ?op]
  have "queue_ok (run_ops ?d ?ops) ''q1''" and "queue_ok (apply_op (run_ops ?d ?ops) ?op) ''q1''"
    by blast+
  with ok ids0 ids ids' show ?thesis
    unfolding Let_def by blast
qed


section \<open>Starting and ending games\<close>

text \<open>
  A court with one in-progress game, and a request for a second game on it: \<open>createGame\<close>
  returns a result, not an error, and the court then has two in-progress games.
\<close>

theorem createGame_on_busy_court_succeeds:
  "length (activeGamesOnCourt
      \<lparr>queues = Map.empty,
       games = [(''g1'', \<lparr>g_courtId = ''c1'', g_queueId = ''q1'', g_facilityId = ''f1'',
                  g_players = [''a'', ''b'', ''c'', ''d''],
                  g_teams = \<lparr>team1 = [''a'', ''b''], team2 = [''c'', ''d'']\<rparr>,
                  g_startedAt = 100, g_endedAt = None, g_duration = None, g_score = None,
                  g_winner = None, g_status = ''in_progress''\<rparr>)],
       courts = [''c1'' \<mapsto> \<lparr>c_facilityId = ''f1'', c_status = ''in_game'',
                               c_currentGame = Some ''g1''\<rparr>],
       gameMetrics = []\<rparr> ''c1'') = 1
   \<and> isl (snd (createGame \<lparr>now_seconds = 200, now_hours = 10, now_day = 1\<rparr> ''g2''
      \<lparr>queues = Map.empty,
       games = [(''g1'', \<lparr>g_courtId = ''c1'', g_queueId = ''q1'', g_facilityId = ''f1'',
                  g_players = [''a'', ''b'', ''c'', ''d''],
                  g_teams = \<lparr>team1 = [''a'', ''b''], team2 = [''c'', ''d'']\<rparr>,
                  g_startedAt = 100, g_endedAt = None, g_duration = None, g_score = None,
                  g_winner = None, g_status = ''in_progress''\<rparr>)],
       courts = [''c1'' \<mapsto> \<lparr>c_facilityId = ''f1'', c_status = ''in_game'',
                               c_currentGame = Some ''g1''\<rparr>],
       gameMetrics = []\<rparr> ''c1'' ''q1'' [''e'', ''f'', ''g'', ''h'']
      \<lparr>rq_team1 = Some [''e'', ''f''], rq_team2 = Some [''g'', ''h'']\<rparr> ''f1'')) = False
   \<and> map fst (activeGamesOnCourt (fst (createGame \<lparr>now_seconds = 200, now_hours = 10, now_day = 1\<rparr> ''g2''
      \<lparr>queues = Map.empty,
       games = [(''g1'', \<lparr>g_courtId = ''c1'', g_queueId = ''q1'', g_facilityId = ''f1'',
                  g_players = [''a'', ''b'', ''c'', ''d''],
                  g_teams = \<lparr>team1 = [''a'', ''b''], team2 = [''c'', ''d'']\<rparr>,
                  g_startedAt = 100, g_endedAt = None, g_duration = None, g_score = None,
                  g_winner = None, g_status = ''in_progress''\<rparr>)],
       courts = [''c1'' \<mapsto> \<lparr>c_facilityId = ''f1'', c_status = ''in_game'',
                               c_currentGame = Some ''g1''\<rparr>],
       gameMetrics = []\<rparr> ''c1'' ''q1'' [''e'', ''f'', ''g'', ''h'']
      \<lparr>rq_team1 = Some [''e'', ''f''], rq_team2 = Some [''g'', ''h'']\<rparr> ''f1'')) ''c1'')
     = [''g1'', ''g2'']"
  by (simp add: createGame_def Let_def activeGamesOnCourt_def)

text \<open>
  C6, as the code has it. \<open>createGame\<close> checks the number of players and the team sizes
  only. For every request with four players and two teams of two on an existing court it
  succeeds, whether or not the court has a game in progress: it adds an in-progress game,
  points the court at it, and the number of in-progress games of the court grows by one.
\<close>

theorem createGame_no_busy_check:
  "length players = 4 \<Longrightarrow> rq_team1 tms = Some t1 \<Longrightarrow> rq_team2 tms = Some t2 \<Longrightarrow>
   length t1 = 2 \<Longrightarrow> length t2 = 2 \<Longrightarrow> courts d courtId = Some c \<Longrightarrow>
   (\<exists>d' r. createGame clk newId d courtId queueId players tms facilityId = (d', Inr r)
      \<and> cg_gameId r = newId
      \<and> g_status (cg_game r) = ''in_progress''
      \<and> g_courtId (cg_game r) = courtId
      \<and> games d' = games d @ [(newId, cg_game r)]
      \<and> courts d' courtId = Some (c\<lparr>c_status := ''in_game'', c_currentGame := Some newId\<rparr>)
      \<and> length (activeGamesOnCourt d' courtId) = length (activeGamesOnCourt d courtId) + 1)"
  by (simp add: createGame_def Let_def activeGamesOnCourt_def)

theorem createGame_no_busy_check_witness:
  "length [''e'', ''f'', ''g'', ''h''] = 4
   \<and> courts \<lparr>queues = Map.empty, games = [],
              courts = [''c1'' \<mapsto> \<lparr>c_facilityId = ''f1'', c_status = ''available'',
                                      c_currentGame = None\<rparr>],
              gameMetrics = []\<rparr> ''c1''
       = Some \<lparr>c_facilityId = ''f1'', c_status = ''available'', c_currentGame = None\<rparr>
   \<and> (\<exists>d' r. createGame \<lparr>now_seconds = 200, now_hours = 10, now_day = 1\<rparr> ''g1''
         \<lparr>queues = Map.empty, games = [],
          courts = [''c1'' \<mapsto> \<lparr>c_facilityId = ''f1'', c_status = ''available'',
                                  c_currentGame = None\<rparr>],
          gameMetrics = []\<rparr> ''c1'' ''q1'' [''e'', ''f'', ''g'', ''h'']
         \<lparr>rq_team1 = Some [''e'', ''f''], rq_team2 = Some [''g'', ''h'']\<rparr> ''f1'' = (d', Inr r)
       \<and> cg_gameId r = ''g1''
       \<and> map fst (activeGamesOnCourt d' ''c1'') = [''g1''])"
  using createGame_no_busy_check [of "[''e'', ''f'', ''g'', ''h'']"
      "\<lparr>rq_team1 = Some [''e'', ''f''], rq_team2 = Some [''g'', ''h'']\<rparr>"
      "[''e'', ''f'']" "[''g'', ''h'']"
      "\<lparr>queues = Map.empty, games = [],
        courts = [''c1'' \<mapsto> \<lparr>c_facilityId = ''f1'', c_status = ''available'',
                                c_currentGame = None\<rparr>],
        gameMetrics = []\<rparr>" "''c1''"
      "\<lparr>c_facilityId = ''f1'', c_status = ''available'', c_currentGame = None\<rparr>"
      "\<lparr>now_seconds = 200, now_hours = 10, now_day = 1\<rparr>" "''g1''" "''q1''" "''f1''"]
  by (auto simp: activeGamesOnCourt_def)

text \<open>
  C3 asks that a tied score is rejected and the game stays in progress. \<open>endGame\<close> has no
  such check: on an in-progress game with the score 9 to 9 it returns a result with
  \<open>team2\<close> as the winner, and the stored game is completed. \<open>processGameEnd\<close> on the
  same input rotates \<open>team1\<close> off as the losing team.
\<close>

theorem endGame_accepts_tie:
  "snd (endGame \<lparr>now_seconds = 700, now_hours = 10, now_day = 1\<rparr>
      \<lparr>queues = [''q1'' \<mapsto> \<lparr>q_courtId = ''c1'', q_players = [], q_updatedAt = 0\<rparr>],
       games = [(''g1'', \<lparr>g_courtId = ''c1'', g_queueId = ''q1'', g_facilityId = ''f1'',
                  g_players = [''a'', ''b'', ''c'', ''d''],
                  g_teams = \<lparr>team1 = [''a'', ''b''], team2 = [''c'', ''d'']\<rparr>,
                  g_startedAt = 100, g_endedAt = None, g_duration = None, g_score = None,
                  g_winner = None, g_status = ''in_progress''\<rparr>)],
       courts = [''c1'' \<mapsto> \<lparr>c_facilityId = ''f1'', c_status = ''in_game'',
                               c_currentGame = Some ''g1''\<rparr>],
       gameMetrics = []\<rparr> ''g1'' \<lparr>s_team1 = 9, s_team2 = 9\<rparr>)
     = Inr \<lparr>er_gameId = ''g1'', er_duration = 600, er_score = \<lparr>s_team1 = 9, s_team2 = 9\<rparr>,
            er_winner = Team2, er_winningTeam = [''c'', ''d''], er_losingTeam = [''a'', ''b'']\<rparr>
   \<and> map_of (games (fst (endGame \<lparr>now_seconds = 700, now_hours = 10, now_day = 1\<rparr>
      \<lparr>queues = [''q1'' \<mapsto> \<lparr>q_courtId = ''c1'', q_players = [], q_updatedAt = 0\<rparr>],
       games = [(''g1'', \<lparr>g_courtId = ''c1'', g_queueId = ''q1'', g_facilityId = ''f1'',
                  g_players = [''a'', ''b'', ''c'', ''d''],
                  g_teams = \<lparr>team1 = [''a'', ''b''], team2 = [''c'', ''d'']\<rparr>,
                  g_startedAt = 100, g_endedAt = None, g_duration = None, g_score = None,
                  g_winner = None, g_status = ''in_progress''\<rparr>)],
       courts = [''c1'' \<mapsto> \<lparr>c_facilityId = ''f1'', c_status = ''in_game'',
                               c_currentGame = Some ''g1''\<rparr>],
       gameMetrics = []\<rparr> ''g1'' \<lparr>s_team1 = 9, s_team2 = 9\<rparr>))) ''g1''
     = Some \<lparr>g_courtId = ''c1'', g_queueId = ''q1'', g_facilityId = ''f1'',
              g_players = [''a'', ''b'', ''c'', ''d''],
              g_teams = \<lparr>team1 = [''a'', ''b''], team2 = [''c'', ''d'']\<rparr>,
              g_startedAt = 100, g_endedAt = Some 700, g_duration = Some 600,
              g_score = Some \<lparr>s_team1 = 9, s_team2 = 9\<rparr>,
              g_winner = Some Team2, g_status = ''completed''\<rparr>
   \<and> snd (processGameEnd \<lparr>now_seconds = 700, now_hours = 10, now_day = 1\<rparr>
      \<lparr>queues = [''q1'' \<mapsto> \<lparr>q_courtId = ''c1'', q_players = [], q_updatedAt = 0\<rparr>],
       games = [(''g1'', \<lparr>g_courtId = ''c1'', g_queueId = ''q1'', g_facilityId = ''f1'',
                  g_players = [''a'', ''b'', ''c'', ''d''],
                  g_teams = \<lparr>team1 = [''a'', ''b''], team2 = [''c'', ''d'']\<rparr>,
                  g_startedAt = 100, g_endedAt = None, g_duration = None, g_score = None,
                  g_winner = None, g_status = ''in_progress''\<rparr>)],
       courts = [''c1'' \<mapsto> \<lparr>c_facilityId = ''f1'', c_status = ''in_game'',
                               c_currentGame = Some ''g1''\<rparr>],
       gameMetrics = []\<rparr> ''g1'' \<lparr>team1Score = 9, team2Score = 9\<rparr>)
     = Inr \<lparr>ge_gameId = ''g1'', ge_duration = 600,
            ge_rotation = \<lparr>rotationType = ''PARTIAL'', playersOff = [''a'', ''b''],
                            playersStay = [''c'', ''d''], reason = ''normal_play'', nextUp = []\<rparr>,
            ge_updatedQueueLength = 0\<rparr>"
  by (simp add: endGame_def Let_def storeGameMetrics_def teamOf_def processGameEnd_def
      renumber_def getConsecutiveWins_def recentCompletedGames_def determineRotation_def
      MAX_CONSECUTIVE_WINS_def ROTATION_THRESHOLD_def)







section \<open>Wait-time prediction\<close>

lemma ceil_half: "\<lceil>real_of_int p / 2\<rceil> = (p + 1) div 2"
proof -
  have "\<lceil>real_of_int p / 2\<rceil> = - (- p div 2)"
    using ceiling_divide_eq_div [of p 2] by simp
  also have "\<dots> = (p + 1) div 2" by presburger
  finally show ?thesis .
qed

lemma ceil_quarter: "\<lceil>real_of_int p / 4\<rceil> = (p + 3) div 4"
proof -
  have "\<lceil>real_of_int p / 4\<rceil> = - (- p div 4)"
    using ceiling_divide_eq_div [of p 4] by simp
  also have "\<dots> = (p + 3) div 4" by presburger
  finally show ?thesis .
qed

lemma half_gt_quarter: "3 \<le> (p::int) \<Longrightarrow> (p + 3) div 4 < (p + 1) div 2"
  by presburger

text \<open>
  C7. The backend's \<open>predictWaitTime\<close> reports \<open>ceil(position / 2)\<close> games until a
  player is up, while the app's \<open>predictWaitTime\<close> (its \<open>gamesNeeded\<close>) and the app's
  \<open>calculatePrediction\<close> use \<open>ceil(position / 4)\<close>; from position 3 on the two values
  differ.
\<close>

theorem gamesUntilUp_paths_disagree:
  "3 \<le> pos \<Longrightarrow> queues d queueId = Some qd \<Longrightarrow>
     (\<exists>r. predictWaitTime clk d queueId pos = Inr r
        \<and> gamesUntilUp r = \<lceil>real_of_int pos / 2\<rceil>
        \<and> gamesNeeded pos = \<lceil>real_of_int pos / 4\<rceil>
        \<and> mp_gamesUntilUp (calculatePrediction queueLength pos) = \<lceil>real_of_int pos / 4\<rceil>
        \<and> gamesUntilUp r \<noteq> gamesNeeded pos
        \<and> gamesUntilUp r \<noteq> mp_gamesUntilUp (calculatePrediction queueLength pos))"
  using half_gt_quarter [of pos]
  by (simp add: predictWaitTime_def calculatePrediction_def gamesNeeded_def playersPerGame_def
      Let_def ceil_half ceil_quarter)

theorem gamesUntilUp_paths_disagree_witness:
  "(3::int) \<le> 3
   \<and> queues \<lparr>queues = [''q1'' \<mapsto> \<lparr>q_courtId = ''c1'', q_players = [], q_updatedAt = 0\<rparr>],
              games = [], courts = Map.empty, gameMetrics = []\<rparr> ''q1''
       = Some \<lparr>q_courtId = ''c1'', q_players = [], q_updatedAt = 0\<rparr>
   \<and> (\<exists>r. predictWaitTime \<lparr>now_seconds = 5000, now_hours = 10, now_day = 1\<rparr>
              \<lparr>queues = [''q1'' \<mapsto> \<lparr>q_courtId = ''c1'', q_players = [], q_updatedAt = 0\<rparr>],
               games = [], courts = Map.empty, gameMetrics = []\<rparr> ''q1'' 3 = Inr r
            \<and> gamesUntilUp r = 2)
   \<and> gamesNeeded 3 = 1
   \<and> mp_gamesUntilUp (calculatePrediction 9 3) = 1"
  using gamesUntilUp_paths_disagree [of 3
        "\<lparr>queues = [''q1'' \<mapsto> \<lparr>q_courtId = ''c1'', q_players = [], q_updatedAt = 0\<rparr>],
          games = [], courts = Map.empty, gameMetrics = []\<rparr>" "''q1''"
        "\<lparr>q_courtId = ''c1'', q_players = [], q_updatedAt = 0\<rparr>"
        "\<lparr>now_seconds = 5000, now_hours = 10, now_day = 1\<rparr>" 9]
  by (auto simp: ceil_half ceil_quarter)

lemma foldl_plus: "foldl (\<lambda>a b. a + b) (a::real) xs = a + sum_list xs"
  by (induction xs arbitrary: a) (simp_all add: add.assoc)

lemma foldl_weighted:
  "foldl (\<lambda>s (i, v). s + v * g i) (a::real) (enumerate k vals)
     = a + (\<Sum>j<length vals. vals ! j * g (k + j))"
proof (induction vals arbitrary: a k)
  case Nil
  then show ?case by simp
next
  case (Cons v vs)
  have "(\<Sum>j<Suc (length vs). (v # vs) ! j * g (k + j))
          = v * g k + (\<Sum>j<length vs. vs ! j * g (Suc k + j))"
    by (subst sum.lessThan_Suc_shift) simp
  with Cons.IH [of "a + v * g k" "Suc k"] show ?case by (simp add: add.assoc)
qed

lemma calculateWeightedAverage_formula:
  "vals \<noteq> [] \<Longrightarrow>
   calculateWeightedAverage vals =
     (\<Sum>i<length vals. vals ! i * exp (- 0.05 * real i)) / (\<Sum>i<length vals. exp (- 0.05 * real i))"
proof -
  assume ne: "vals \<noteq> []"
  let ?n = "length vals"
  let ?w = "\<lambda>i. exp (- 0.05 * real i)"
  let ?ws = "map ?w [0..<?n]"
  have ws: "foldl (\<lambda>a b. a + b) 0 ?ws = (\<Sum>i<?n. ?w i)"
    by (simp add: foldl_plus interv_sum_list_conv_sum_set_nat atLeast0LessThan)
  have "foldl (\<lambda>s (i, v). s + v * ?ws ! i) 0 (enumerate 0 vals)
          = (\<Sum>j<?n. vals ! j * ?ws ! j)"
    using foldl_weighted [of "\<lambda>i. ?ws ! i" 0 0 vals] by simp
  also have "\<dots> = (\<Sum>j<?n. vals ! j * ?w j)"
    by (rule sum.cong) simp_all
  finally have vs: "foldl (\<lambda>s (i, v). s + v * ?ws ! i) 0 (enumerate 0 vals)
          = (\<Sum>j<?n. vals ! j * ?w j)" .
  show ?thesis
    using ne unfolding calculateWeightedAverage_def Let_def ws vs by simp
qed

lemma exp_twentieth_bounds: "19 / 20 \<le> exp (- (1 / 20) :: real) \<and> exp (- (1 / 20) :: real) \<le> 20 / 21"
proof -
  have lo: "19 / 20 \<le> exp (- (1 / 20) :: real)"
    using exp_ge_add_one_self [of "- (1 / 20) :: real"] by simp
  have "21 / 20 \<le> exp (1 / 20 :: real)"
    using exp_ge_add_one_self [of "1 / 20 :: real"] by simp
  then have "inverse (exp (1 / 20 :: real)) \<le> inverse (21 / 20)"
    by (intro le_imp_inverse_le) simp_all
  then have hi: "exp (- (1 / 20) :: real) \<le> 20 / 21"
    by (simp add: exp_minus)
  from lo hi show ?thesis ..
qed

lemma example_value:
  "calculateWeightedAverage [10, 20, 30]
     = (10 + 20 * exp (- (1 / 20)) + 30 * (exp (- (1 / 20)))\<^sup>2)
       / (1 + exp (- (1 / 20)) + (exp (- (1 / 20)))\<^sup>2)"
proof -
  have sq: "exp (- (1 / 10) :: real) = (exp (- (1 / 20)))\<^sup>2"
    using exp_double [of "- (1 / 20) :: real"] by simp
  show ?thesis
    by (simp add: calculateWeightedAverage_formula lessThan_Suc numeral_3_eq_3 sq add.commute add.left_commute)
qed

lemma example_bounds:
  "19.65 < calculateWeightedAverage [10, 20, 30] \<and> calculateWeightedAverage [10, 20, 30] < 19.68"
proof -
  define a :: real where "a = exp (- (1 / 20))"
  have lo: "19 / 20 \<le> a" and hi: "a \<le> 20 / 21"
    using exp_twentieth_bounds by (simp_all add: a_def)
  have a0: "0 \<le> a" using lo by simp
  have sqlo: "(19 / 20)\<^sup>2 \<le> a\<^sup>2" using lo by (intro power_mono) simp_all
  have sqhi: "a\<^sup>2 \<le> (20 / 21)\<^sup>2" using hi a0 by (intro power_mono) simp_all
  have den: "0 < 1 + a + a\<^sup>2" using a0 by (simp add: add_pos_nonneg)
  have l: "19.65 * (1 + a + a\<^sup>2) < 10 + 20 * a + 30 * a\<^sup>2"
    using lo sqlo by (simp add: power2_eq_square)
  have u: "10 + 20 * a + 30 * a\<^sup>2 < 19.68 * (1 + a + a\<^sup>2)"
    using hi sqhi by (simp add: power2_eq_square)
  have v: "calculateWeightedAverage [10, 20, 30] = (10 + 20 * a + 30 * a\<^sup>2) / (1 + a + a\<^sup>2)"
    by (simp only: example_value a_def)
  show ?thesis
    unfolding v using l u den by (simp add: pos_less_divide_eq pos_divide_less_eq)
qed

lemma weighted_const:
  assumes "vals \<noteq> []" "\<forall>v\<in>set vals. v = c"
  shows "calculateWeightedAverage vals = c"
proof -
  let ?n = "length vals"
  let ?w = "\<lambda>i. exp (- 0.05 * real i)"
  have "0 \<in> {..<?n}" using assms(1) by simp
  then have "{..<?n} \<noteq> {}" by blast
  then have pos: "0 < (\<Sum>i<?n. ?w i)"
    by (intro sum_pos) simp_all
  have "(\<Sum>i<?n. vals ! i * ?w i) = (\<Sum>i<?n. c * ?w i)"
    using assms(2) by (intro sum.cong) simp_all
  also have "\<dots> = c * (\<Sum>i<?n. ?w i)" by (simp add: sum_distrib_left)
  finally show ?thesis using pos assms(1) by (simp add: calculateWeightedAverage_formula)
qed

text \<open>
  The value for the samples 10, 20, 30 lies above 19.65; it is not 19.3.
\<close>

theorem weighted_example_is_not_19_3:
  "calculateWeightedAverage [10, 20, 30] - 19.3 > 0.35"
  using example_bounds by simp

text \<open>
  C8, as the code has it. For a non-empty sample list \<open>calculateWeightedAverage\<close> returns
  the sum of \<open>v[i] * w[i]\<close> over the sum of \<open>w[i]\<close> with \<open>w[i] = exp(-0.05 * i)\<close>;
  for the samples 10, 20, 30 that is
  \<open>(10 + 20 e^-0.05 + 30 e^-0.10) / (1 + e^-0.05 + e^-0.10)\<close>, a value between 19.65
  and 19.68.
\<close>

theorem calculateWeightedAverage_weighted_mean:
  "(vals \<noteq> [] \<longrightarrow>
      calculateWeightedAverage vals =
        (\<Sum>i<length vals. vals ! i * exp (- 0.05 * real i))
        / (\<Sum>i<length vals. exp (- 0.05 * real i)))
   \<and> calculateWeightedAverage [10, 20, 30]
       = (10 * 1 + 20 * exp (- 0.05) + 30 * exp (- 0.10)) / (1 + exp (- 0.05) + exp (- 0.10))
   \<and> 19.65 < calculateWeightedAverage [10, 20, 30]
   \<and> calculateWeightedAverage [10, 20, 30] < 19.68"
proof -
  have sq: "exp (- (1 / 10) :: real) = (exp (- (1 / 20)))\<^sup>2"
    using exp_double [of "- (1 / 20) :: real"] by simp
  have "calculateWeightedAverage [10, 20, 30]
       = (10 * 1 + 20 * exp (- 0.05) + 30 * exp (- 0.10)) / (1 + exp (- 0.05) + exp (- 0.10))"
    by (simp add: example_value sq)
  then show ?thesis
    using calculateWeightedAverage_formula [of vals] example_bounds by blast
qed

theorem calculateWeightedAverage_weighted_mean_witness:
  "[4, 8 :: real] \<noteq> []
   \<and> calculateWeightedAverage [4, 8] = (4 + 8 * exp (- 0.05)) / (1 + exp (- 0.05))"
  using calculateWeightedAverage_weighted_mean [of "[4, 8]"]
  by (simp add: lessThan_Suc numeral_2_eq_2 add.commute)

lemma Math_round_near: "\<bar>real_of_int (Math_round x) - x\<bar> \<le> 1 / 2"
  unfolding Math_round_def by linarith

lemma metrics_all_720:
  "\<forall>m\<in>set ms. m_duration m = 720 \<Longrightarrow> ms \<noteq> [] \<Longrightarrow> calculateWeightedAverage (durations ms) = 720"
  by (rule weighted_const) (auto simp: durations_def)

text \<open>
  A store with ten recorded games of 720 seconds on the court of the queue: the backend
  estimates 12 minutes for position 1, which is not a multiple of 5.
\<close>

theorem backend_estimate_not_multiple_of_5:
  "predictWaitTime \<lparr>now_seconds = 5000, now_hours = 10, now_day = 1\<rparr>
     \<lparr>queues = [''q1'' \<mapsto> \<lparr>q_courtId = ''c1'', q_players = [], q_updatedAt = 0\<rparr>],
      games = [], courts = Map.empty,
      gameMetrics = [
        \<lparr>m_gameId = ''g0'', m_duration = 720, m_players = [], m_courtId = ''c1'', m_facilityId = ''f1'', m_timeOfDay = 10, m_dayOfWeek = 1, m_createdAt = 0\<rparr>,
        \<lparr>m_gameId = ''g1'', m_duration = 720, m_players = [], m_courtId = ''c1'', m_facilityId = ''f1'', m_timeOfDay = 10, m_dayOfWeek = 1, m_createdAt = 1\<rparr>,
        \<lparr>m_gameId = ''g2'', m_duration = 720, m_players = [], m_courtId = ''c1'', m_facilityId = ''f1'', m_timeOfDay = 10, m_dayOfWeek = 1, m_createdAt = 2\<rparr>,
        \<lparr>m_gameId = ''g3'', m_duration = 720, m_players = [], m_courtId = ''c1'', m_facilityId = ''f1'', m_timeOfDay = 10, m_dayOfWeek = 1, m_createdAt = 3\<rparr>,
        \<lparr>m_gameId = ''g4'', m_duration = 720, m_players = [], m_courtId = ''c1'', m_facilityId = ''f1'', m_timeOfDay = 10, m_dayOfWeek = 1, m_createdAt = 4\<rparr>,
        \<lparr>m_gameId = ''g5'', m_duration = 720, m_players = [], m_courtId = ''c1'', m_facilityId = ''f1'', m_timeOfDay = 10, m_dayOfWeek = 1, m_createdAt = 5\<rparr>,
        \<lparr>m_gameId = ''g6'', m_duration = 720, m_players = [], m_courtId = ''c1'', m_facilityId = ''f1'', m_timeOfDay = 10, m_dayOfWeek = 1, m_createdAt = 6\<rparr>,
        \<lparr>m_gameId = ''g7'', m_duration = 720, m_players = [], m_courtId = ''c1'', m_facilityId = ''f1'', m_timeOfDay = 10, m_dayOfWeek = 1, m_createdAt = 7\<rparr>,
        \<lparr>m_gameId = ''g8'', m_duration = 720, m_players = [], m_courtId = ''c1'', m_facilityId = ''f1'', m_timeOfDay = 10, m_dayOfWeek = 1, m_createdAt = 8\<rparr>,
        \<lparr>m_gameId = ''g9'', m_duration = 720, m_players = [], m_courtId = ''c1'', m_facilityId = ''f1'', m_timeOfDay = 10, m_dayOfWeek = 1, m_createdAt = 9\<rparr>]\<rparr>
     ''q1'' 1
   = Inr \<lparr>estimatedWaitMinutes = 12, estimatedWaitSeconds = 720, gamesUntilUp = 1,
          averageGameDuration = 12, confidence = ''low'', calculatedAt = 5000\<rparr>
   \<and> \<not> 5 dvd (12::int)"
  (is "predictWaitTime ?clk ?d ''q1'' 1 = _ \<and> _")
proof -
  let ?cg = "contextualGames ?clk ?d ''c1''"
  have len: "length ?cg = 10"
    by (simp add: contextualGames_def)
  have all: "\<forall>m\<in>set ?cg. m_duration m = 720"
    unfolding contextualGames_def by (auto dest!: in_set_takeD)
  from len have ne: "?cg \<noteq> []" by auto
  have avg: "getAverageGameDuration ?clk ?d ''c1'' = 720"
    using metrics_all_720 [OF all ne] len
    by (simp add: getAverageGameDuration_def MIN_GAMES_FOR_PREDICTION_def)
  have conf: "calculateConfidence ?d ''c1'' = ''low''"
    by (simp add: calculateConfidence_def allGames_def Let_def)
  have c: "\<lceil>(1::real) / 2\<rceil> = 1"
    by (rule ceiling_unique) simp_all
  show ?thesis
    by (simp add: predictWaitTime_def Let_def avg conf Math_round_def c)
qed

lemma predictWaitTime_round_minute:
  "queues d queueId = Some qd \<Longrightarrow>
     \<exists>r. predictWaitTime clk d queueId p = Inr r
       \<and> estimatedWaitMinutes r
           = Math_round (real_of_int (gamesUntilUp r) * getAverageGameDuration clk d (q_courtId qd) / 60)
       \<and> \<bar>real_of_int (estimatedWaitMinutes r)
            - real_of_int (gamesUntilUp r) * getAverageGameDuration clk d (q_courtId qd) / 60\<bar> \<le> 1 / 2"
  using Math_round_near
    [of "real_of_int \<lceil>real_of_int p / 2\<rceil> * getAverageGameDuration clk d (q_courtId qd) / 60"]
  by (simp add: predictWaitTime_def Let_def)

lemma app_predictWaitTime_round5:
  "5 dvd app_predictWaitTime pos avg ac \<and> 0 \<le> app_predictWaitTime pos avg ac
   \<and> (0 < pos \<and> 0 \<le> estimatedMinutes pos avg ac \<longrightarrow>
        \<bar>real_of_int (app_predictWaitTime pos avg ac) - estimatedMinutes pos avg ac\<bar> \<le> 5 / 2)"
proof -
  have a: "5 dvd app_predictWaitTime pos avg ac"
    by (simp add: app_predictWaitTime_def max_def)
  have b: "0 \<le> app_predictWaitTime pos avg ac"
    by (simp add: app_predictWaitTime_def)
  have c: "\<bar>real_of_int (app_predictWaitTime pos avg ac) - estimatedMinutes pos avg ac\<bar> \<le> 5 / 2"
    if "0 < pos" "0 \<le> estimatedMinutes pos avg ac"
  proof -
    let ?e = "estimatedMinutes pos avg ac"
    have r: "\<bar>real_of_int (Math_round (?e / 5)) - ?e / 5\<bar> \<le> 1 / 2" by (rule Math_round_near)
    have nn: "0 \<le> Math_round (?e / 5)" using that unfolding Math_round_def by simp
    have eq: "app_predictWaitTime pos avg ac = Math_round (?e / 5) * 5"
      using that nn by (simp add: app_predictWaitTime_def)
    have "real_of_int (Math_round (?e / 5) * 5) - ?e = 5 * (real_of_int (Math_round (?e / 5)) - ?e / 5)"
      by simp
    then have "\<bar>real_of_int (Math_round (?e / 5) * 5) - ?e\<bar>
                 = 5 * \<bar>real_of_int (Math_round (?e / 5)) - ?e / 5\<bar>"
      by (simp only: abs_mult)
    with r show ?thesis by (simp only: eq)
  qed
  from a b c show ?thesis by blast
qed

text \<open>
  C9, as the code has it. The app's \<open>predictWaitTime\<close> returns a non-negative multiple
  of 5, the nearest one to its estimate when that is not negative. The backend's
  \<open>predictWaitTime\<close> returns \<open>estimatedWaitMinutes\<close> rounded to the nearest whole minute.
\<close>

theorem estimate_rounding_by_path:
  "5 dvd app_predictWaitTime pos avg ac \<and> 0 \<le> app_predictWaitTime pos avg ac
   \<and> (0 < pos \<and> 0 \<le> estimatedMinutes pos avg ac \<longrightarrow>
        \<bar>real_of_int (app_predictWaitTime pos avg ac) - estimatedMinutes pos avg ac\<bar> \<le> 5 / 2)
   \<and> (queues d queueId = Some qd \<longrightarrow>
        (\<exists>r. predictWaitTime clk d queueId p = Inr r
           \<and> estimatedWaitMinutes r
               = Math_round (real_of_int (gamesUntilUp r)
                               * getAverageGameDuration clk d (q_courtId qd) / 60)
           \<and> \<bar>real_of_int (estimatedWaitMinutes r)
                - real_of_int (gamesUntilUp r) * getAverageGameDuration clk d (q_courtId qd) / 60\<bar>
               \<le> 1 / 2))"
  using app_predictWaitTime_round5 [of pos avg ac] predictWaitTime_round_minute [of d queueId qd clk p]
  by blast

lemma empty_store_average:
  "getAverageGameDuration clk \<lparr>queues = qs, games = gs, courts = Map.empty, gameMetrics = []\<rparr> c = 900"
  by (simp add: getAverageGameDuration_def contextualGames_def allGames_def
      MIN_GAMES_FOR_PREDICTION_def DEFAULT_GAME_DURATION_SECONDS_def)

theorem estimate_rounding_by_path_witness:
  "(0::int) < 5 \<and> 0 \<le> estimatedMinutes 5 12 None
   \<and> app_predictWaitTime 5 12 None = 25
   \<and> queues \<lparr>queues = [''q1'' \<mapsto> \<lparr>q_courtId = ''c1'', q_players = [], q_updatedAt = 0\<rparr>],
              games = [], courts = Map.empty, gameMetrics = []\<rparr> ''q1''
       = Some \<lparr>q_courtId = ''c1'', q_players = [], q_updatedAt = 0\<rparr>
   \<and> (\<exists>r. predictWaitTime \<lparr>now_seconds = 5000, now_hours = 10, now_day = 1\<rparr>
              \<lparr>queues = [''q1'' \<mapsto> \<lparr>q_courtId = ''c1'', q_players = [], q_updatedAt = 0\<rparr>],
               games = [], courts = Map.empty, gameMetrics = []\<rparr> ''q1'' 3 = Inr r
            \<and> estimatedWaitMinutes r = 30)"
proof -
  have g: "gamesNeeded 5 = 2"
    unfolding gamesNeeded_def playersPerGame_def by (rule ceiling_unique) simp_all
  have e: "estimatedMinutes 5 12 None = 24"
    by (simp add: estimatedMinutes_def Let_def g)
  have r: "Math_round (24 / 5) = 5"
    unfolding Math_round_def by (rule floor_unique) simp_all
  have a: "app_predictWaitTime 5 12 None = 25"
    by (simp add: app_predictWaitTime_def e r)
  have c: "\<lceil>(3::real) / 2\<rceil> = 2" by simp
  show ?thesis
    using estimate_rounding_by_path [of 5 12 None
        "\<lparr>queues = [''q1'' \<mapsto> \<lparr>q_courtId = ''c1'', q_players = [], q_updatedAt = 0\<rparr>],
          games = [], courts = Map.empty, gameMetrics = []\<rparr>" "''q1''"
        "\<lparr>q_courtId = ''c1'', q_players = [], q_updatedAt = 0\<rparr>"
        "\<lparr>now_seconds = 5000, now_hours = 10, now_day = 1\<rparr>" 3]
    by (simp add: e a empty_store_average predictWaitTime_def Let_def Math_round_def c)
qed

end
